theory Spec2Isabelle
  imports Complex_Main "HOL-Library.Word" "HOL-Library.Multiset"
begin

section \<open>Python values and exceptions\<close>

text \<open>
  The two nodes of \<^verbatim>\<open>nodes.py\<close> handle dynamically typed values: the attributes of
  the notes returned by the inference library and the fields of the tuples of a
  \<^verbatim>\<open>MIDI_DATA\<close> list. A value is an integer, a float or \<^verbatim>\<open>None\<close>, the last one
  standing for every object that is not a number. Floats are modelled as reals: their
  order is the order of the finite floats, and rounding, infinities and NaN are outside
  the model.
\<close>

datatype pyval = PInt int | PFloat real | PNone

text \<open>
  An exception is its class and the text \<^verbatim>\<open>str(e)\<close>. \<^verbatim>\<open>KeyboardInterrupt\<close> and
  \<^verbatim>\<open>SystemExit\<close> derive from \<^verbatim>\<open>BaseException\<close> only; every other class derives
  from \<^verbatim>\<open>Exception\<close>. \<^verbatim>\<open>OtherError name\<close> is any further subclass of
  \<^verbatim>\<open>Exception\<close>, such as the errors of the two libraries.
\<close>

datatype exc_class =
    ValueError | RuntimeError | TypeError | IndexError | ZeroDivisionError
  | FileNotFoundError | FileExistsError | NotADirectoryError | IsADirectoryError
  | OtherError string
  | KeyboardInterrupt | SystemExit

datatype pyexc = PyExc (exc_cls: exc_class) (exc_str: string)

fun is_Exception :: "exc_class \<Rightarrow> bool" where
  "is_Exception KeyboardInterrupt = False"
| "is_Exception SystemExit = False"
| "is_Exception _ = True"

text \<open>
  \<^verbatim>\<open>except Exception as e: raise RuntimeError(f"<prefix>{str(e)}")\<close>: an exception that
  derives from \<^verbatim>\<open>Exception\<close> is replaced, any other one passes through the clause.
\<close>

definition except_Exception :: "string \<Rightarrow> pyexc \<Rightarrow> pyexc" where
  "except_Exception prefix e =
     (if is_Exception (exc_cls e) then PyExc RuntimeError (prefix @ exc_str e) else e)"

definition quoted :: "string \<Rightarrow> string" where
  "quoted s = CHR 0x27 # s @ [CHR 0x27]"

fun type_name :: "pyval \<Rightarrow> string" where
  "type_name (PInt _) = ''int''"
| "type_name (PFloat _) = ''float''"
| "type_name PNone = ''NoneType''"

text \<open>
  \<^verbatim>\<open>int(x)\<close>: the identity on an integer, truncation towards zero on a float. The
  result is an integer object.
\<close>

fun py_int :: "pyval \<Rightarrow> pyexc + int" where
  "py_int (PInt i) = Inr i"
| "py_int (PFloat r) = Inr (if 0 \<le> r then \<lfloor>r\<rfloor> else \<lceil>r\<rceil>)"
| "py_int PNone = Inl (PyExc TypeError
     (''int() argument must be a string, a bytes-like object or a real number, not ''
      @ quoted (type_name PNone)))"

text \<open>\<^verbatim>\<open>float(x)\<close>. The result is a float object.\<close>

fun py_float :: "pyval \<Rightarrow> pyexc + real" where
  "py_float (PInt i) = Inr (of_int i)"
| "py_float (PFloat r) = Inr r"
| "py_float PNone = Inl (PyExc TypeError
     (''float() argument must be a string or a real number, not ''
      @ quoted (type_name PNone)))"

text \<open>\<^verbatim>\<open>a - b\<close>.\<close>

fun py_sub :: "pyval \<Rightarrow> pyval \<Rightarrow> pyexc + pyval" where
  "py_sub (PInt a) (PInt b) = Inr (PInt (a - b))"
| "py_sub (PInt a) (PFloat b) = Inr (PFloat (of_int a - b))"
| "py_sub (PFloat a) (PInt b) = Inr (PFloat (a - of_int b))"
| "py_sub (PFloat a) (PFloat b) = Inr (PFloat (a - b))"
| "py_sub a b = Inl (PyExc TypeError
     (''unsupported operand type(s) for -: '' @ quoted (type_name a)
      @ '' and '' @ quoted (type_name b)))"

text \<open>\<^verbatim>\<open>a < b\<close> and \<^verbatim>\<open>a <= b\<close>: numbers compare by value, anything else raises.\<close>

definition not_supported :: "string \<Rightarrow> pyval \<Rightarrow> pyval \<Rightarrow> pyexc" where
  "not_supported opr a b =
     PyExc TypeError (quoted opr @ '' not supported between instances of ''
       @ quoted (type_name a) @ '' and '' @ quoted (type_name b))"

fun py_lt :: "pyval \<Rightarrow> pyval \<Rightarrow> pyexc + bool" where
  "py_lt (PInt a) (PInt b) = Inr (a < b)"
| "py_lt (PInt a) (PFloat b) = Inr (of_int a < b)"
| "py_lt (PFloat a) (PInt b) = Inr (a < of_int b)"
| "py_lt (PFloat a) (PFloat b) = Inr (a < b)"
| "py_lt a b = Inl (not_supported ''<'' a b)"

fun py_le :: "pyval \<Rightarrow> pyval \<Rightarrow> pyexc + bool" where
  "py_le (PInt a) (PInt b) = Inr (a \<le> b)"
| "py_le (PInt a) (PFloat b) = Inr (of_int a \<le> b)"
| "py_le (PFloat a) (PInt b) = Inr (a \<le> of_int b)"
| "py_le (PFloat a) (PFloat b) = Inr (a \<le> b)"
| "py_le a b = Inl (not_supported ''<='' a b)"

text \<open>\<^verbatim>\<open>x[i]\<close> on a tuple, for an index that is not negative.\<close>

definition py_index :: "pyval list \<Rightarrow> nat \<Rightarrow> pyexc + pyval" where
  "py_index x i =
     (if i < length x then Inr (x ! i) else Inl (PyExc IndexError ''tuple index out of range''))"

subsection \<open>list.sort(key=...)\<close>

text \<open>
  The keys are computed first, one for each element in order. The elements are then put
  in order of their keys by comparisons with \<^verbatim>\<open><\<close> only, and elements with equal keys
  keep their order. The model sorts by insertion from the right; an exception of a key
  or of a comparison ends the sort.
\<close>

fun decorate :: "('a \<Rightarrow> pyexc + pyval) \<Rightarrow> 'a list \<Rightarrow> pyexc + (pyval \<times> 'a) list" where
  "decorate key [] = Inr []"
| "decorate key (x # xs) =
     (case key x of
        Inl e \<Rightarrow> Inl e
      | Inr k \<Rightarrow> (case decorate key xs of Inl e \<Rightarrow> Inl e | Inr ds \<Rightarrow> Inr ((k, x) # ds)))"

fun py_insort :: "pyval \<times> 'a \<Rightarrow> (pyval \<times> 'a) list \<Rightarrow> pyexc + (pyval \<times> 'a) list" where
  "py_insort x [] = Inr [x]"
| "py_insort x (y # ys) =
     (case py_lt (fst y) (fst x) of
        Inl e \<Rightarrow> Inl e
      | Inr True \<Rightarrow> (case py_insort x ys of Inl e \<Rightarrow> Inl e | Inr r \<Rightarrow> Inr (y # r))
      | Inr False \<Rightarrow> Inr (x # y # ys))"

fun py_sort :: "(pyval \<times> 'a) list \<Rightarrow> pyexc + (pyval \<times> 'a) list" where
  "py_sort [] = Inr []"
| "py_sort (x # xs) = (case py_sort xs of Inl e \<Rightarrow> Inl e | Inr r \<Rightarrow> py_insort x r)"

definition list_sort :: "('a \<Rightarrow> pyexc + pyval) \<Rightarrow> 'a list \<Rightarrow> pyexc + 'a list" where
  "list_sort key xs =
     (case decorate key xs of
        Inl e \<Rightarrow> Inl e
      | Inr ds \<Rightarrow> (case py_sort ds of Inl e \<Rightarrow> Inl e | Inr r \<Rightarrow> Inr (map snd r)))"

section \<open>The environment: file system and call log\<close>

text \<open>
  A path of the file system is the list of its component names from the root. A node is
  a directory or a regular file with its bytes; the root is always a directory. The
  world also keeps the working directory and the log of the calls made to the
  inference library. There are no symbolic links and no permissions.
\<close>

type_synonym byte = "8 word"

datatype node = Dir | File "byte list"

type_synonym path = "string list"

record world =
  fs :: "path \<Rightarrow> node option"
  cwd :: path
  predict_calls :: "(string \<times> real \<times> real) list"

definition node_of :: "(path \<Rightarrow> node option) \<Rightarrow> path \<Rightarrow> node option" where
  "node_of f p = (if p = [] then Some Dir else f p)"

text \<open>\<^verbatim>\<open>s.split('/')\<close> and its inverse \<^verbatim>\<open>'/'.join(cs)\<close>.\<close>

fun split_sep :: "string \<Rightarrow> string list" where
  "split_sep [] = [[]]"
| "split_sep (c # cs) =
     (if c = CHR ''/'' then [] # split_sep cs
      else (case split_sep cs of [] \<Rightarrow> [[c]] | x # xs \<Rightarrow> (c # x) # xs))"

fun join_sep :: "string list \<Rightarrow> string" where
  "join_sep [] = []"
| "join_sep [c] = c"
| "join_sep (c # cs) = c @ ''/'' @ join_sep cs"

text \<open>
  Path resolution as the operating system does it: a component is looked up in the node
  reached so far, which must be a directory. An empty component (a doubled or trailing
  slash) and \<^verbatim>\<open>.\<close> stay there, \<^verbatim>\<open>..\<close> steps to the parent. The node reached by the
  last component need not exist.
\<close>

fun walk :: "(path \<Rightarrow> node option) \<Rightarrow> path \<Rightarrow> string list \<Rightarrow> exc_class + path" where
  "walk f cur [] = Inr cur"
| "walk f cur (c # cs) =
     (case node_of f cur of
        None \<Rightarrow> Inl FileNotFoundError
      | Some (File _) \<Rightarrow> Inl NotADirectoryError
      | Some Dir \<Rightarrow>
          (if c = [] \<or> c = ''.'' then walk f cur cs
           else if c = ''..'' then walk f (butlast cur) cs
           else walk f (cur @ [c]) cs))"

definition start_dir :: "world \<Rightarrow> string \<Rightarrow> path" where
  "start_dir w s = (if take 1 s = ''/'' then [] else cwd w)"

fun errno_text :: "exc_class \<Rightarrow> string" where
  "errno_text FileNotFoundError = ''[Errno 2] No such file or directory''"
| "errno_text FileExistsError = ''[Errno 17] File exists''"
| "errno_text NotADirectoryError = ''[Errno 20] Not a directory''"
| "errno_text IsADirectoryError = ''[Errno 21] Is a directory''"
| "errno_text _ = []"

definition os_error :: "exc_class \<Rightarrow> string \<Rightarrow> pyexc" where
  "os_error c name = PyExc c (errno_text c @ '': '' @ quoted name)"

text \<open>\<^verbatim>\<open>os.stat(path)\<close>, as far as the kind and the content of the node.\<close>

definition os_stat :: "world \<Rightarrow> string \<Rightarrow> pyexc + node" where
  "os_stat w s =
     (if s = [] then Inl (os_error FileNotFoundError s)
      else (case walk (fs w) (start_dir w s) (split_sep s) of
              Inl c \<Rightarrow> Inl (os_error c s)
            | Inr p \<Rightarrow>
                (case node_of (fs w) p of
                   None \<Rightarrow> Inl (os_error FileNotFoundError s)
                 | Some n \<Rightarrow> Inr n)))"

text \<open>
  \<^verbatim>\<open>os.path.exists(path)\<close>: whether \<^verbatim>\<open>os.stat\<close> succeeds; true for a file and for a
  directory alike.
\<close>

definition os_path_exists :: "world \<Rightarrow> string \<Rightarrow> bool" where
  "os_path_exists w s = (case os_stat w s of Inl _ \<Rightarrow> False | Inr _ \<Rightarrow> True)"

text \<open>\<^verbatim>\<open>os.path.join(a, b)\<close> of \<^verbatim>\<open>posixpath\<close>.\<close>

definition os_path_join :: "string \<Rightarrow> string \<Rightarrow> string" where
  "os_path_join a b =
     (if take 1 b = ''/'' then b
      else if a = [] \<or> last a = CHR ''/'' then a @ b
      else a @ ''/'' @ b)"

text \<open>
  \<^verbatim>\<open>os.makedirs(name, exist_ok=True)\<close> goes down the components of \<open>name\<close>: a missing
  directory is created, a directory that exists is accepted, a regular file in the way
  is an error. The error names the path that \<^verbatim>\<open>mkdir\<close> was called with: \<open>name\<close> itself
  when at most one component follows the file, else the path up to the first component
  after the file. \<open>seen\<close> holds the components gone through.
\<close>

definition mkdir_error :: "string \<Rightarrow> string list \<Rightarrow> string list \<Rightarrow> pyexc" where
  "mkdir_error name seen cs =
     (let rest = dropWhile (\<lambda>x. x = []) cs in
        if rest = [] then os_error FileExistsError name
        else if \<forall>x \<in> set (tl rest). x = [] then os_error NotADirectoryError name
        else os_error NotADirectoryError
               (join_sep (seen @ takeWhile (\<lambda>x. x = []) cs @ [hd rest])))"

fun mkdir_chain ::
  "(path \<Rightarrow> node option) \<Rightarrow> string \<Rightarrow> string list \<Rightarrow> path \<Rightarrow> string list \<Rightarrow>
   pyexc option \<times> (path \<Rightarrow> node option)"
where
  "mkdir_chain f name seen cur [] = (None, f)"
| "mkdir_chain f name seen cur (c # cs) =
     (if c = [] \<or> c = ''.'' then mkdir_chain f name (seen @ [c]) cur cs
      else if c = ''..'' then mkdir_chain f name (seen @ [c]) (butlast cur) cs
      else (case f (cur @ [c]) of
              None \<Rightarrow> mkdir_chain (f(cur @ [c] \<mapsto> Dir)) name (seen @ [c]) (cur @ [c]) cs
            | Some Dir \<Rightarrow> mkdir_chain f name (seen @ [c]) (cur @ [c]) cs
            | Some (File _) \<Rightarrow> (Some (mkdir_error name (seen @ [c]) cs), f)))"

definition os_makedirs :: "world \<Rightarrow> string \<Rightarrow> pyexc option \<times> world" where
  "os_makedirs w name =
     (if name = [] then (Some (os_error FileNotFoundError name), w)
      else (case mkdir_chain (fs w) name [] (start_dir w name) (split_sep name) of
              (r, f) \<Rightarrow> (r, w\<lparr>fs := f\<rparr>)))"

text \<open>
  \<^verbatim>\<open>open(name, "wb")\<close>: the path is resolved up to its last component, which must lie
  in a directory. A trailing slash, \<^verbatim>\<open>.\<close>, \<^verbatim>\<open>..\<close> or a directory as the target is an
  error. Otherwise the file is created, or emptied when it exists. The handle is the
  path of the file. \<open>path_body\<close> is the components without the empty ones at the end.
\<close>

definition path_body :: "string \<Rightarrow> string list" where
  "path_body name = rev (dropWhile (\<lambda>x. x = []) (rev (split_sep name)))"

definition open_wb :: "world \<Rightarrow> string \<Rightarrow> pyexc + path \<times> world" where
  "open_wb w name =
     (if name = [] then Inl (os_error FileNotFoundError name)
      else let cs = split_sep name; body = path_body name in
        if body = [] then Inl (os_error IsADirectoryError name)
        else (case walk (fs w) (start_dir w name) (butlast body) of
           Inl e \<Rightarrow> Inl (os_error e name)
         | Inr par \<Rightarrow>
             (case node_of (fs w) par of
                None \<Rightarrow> Inl (os_error FileNotFoundError name)
              | Some (File _) \<Rightarrow> Inl (os_error NotADirectoryError name)
              | Some Dir \<Rightarrow>
                  if last cs = [] \<or> last body = ''.'' \<or> last body = ''..'' then
                    Inl (os_error IsADirectoryError name)
                  else (case fs w (par @ [last body]) of
                          Some Dir \<Rightarrow> Inl (os_error IsADirectoryError name)
                        | _ \<Rightarrow> Inr (par @ [last body],
                                    w\<lparr>fs := (fs w)(par @ [last body] \<mapsto> File [])\<rparr>)))))"

text \<open>
  \<^verbatim>\<open>f.write(bs)\<close> on the handle, then closing it: the bytes are added to what the file
  holds.
\<close>

definition write_close :: "world \<Rightarrow> path \<Rightarrow> byte list \<Rightarrow> world" where
  "write_close w q bs =
     w\<lparr>fs := (fs w)(q \<mapsto> File ((case fs w q of Some (File old) \<Rightarrow> old | _ \<Rightarrow> []) @ bs))\<rparr>"

section \<open>The MIDI object\<close>

text \<open>
  The object of the MIDI library is the sequence of the calls that assembled it. Adding
  a name or a note records the arguments. Adding a tempo computes
  \<^verbatim>\<open>int(60000000 / tempo)\<close> and so raises \<^verbatim>\<open>ZeroDivisionError\<close> for the tempo 0. The
  serialisation \<^verbatim>\<open>writeFile\<close> belongs to the library and is a parameter of the model:
  it gives the bytes it wrote and the exception it raised, if any.
\<close>

datatype midi_event =
    TrackNameEvent nat int string
  | TempoEvent nat int int
  | NoteEvent nat nat int pyval pyval int

record midifile =
  numTracks :: nat
  eventlist :: "midi_event list"

definition MIDIFile :: "nat \<Rightarrow> midifile" where
  "MIDIFile n = \<lparr>numTracks = n, eventlist = []\<rparr>"

definition addTrackName :: "midifile \<Rightarrow> nat \<Rightarrow> int \<Rightarrow> string \<Rightarrow> midifile" where
  "addTrackName midi track time name =
     midi\<lparr>eventlist := eventlist midi @ [TrackNameEvent track time name]\<rparr>"

definition addTempo :: "midifile \<Rightarrow> nat \<Rightarrow> int \<Rightarrow> int \<Rightarrow> pyexc + midifile" where
  "addTempo midi track time tempo =
     (if tempo = 0 then Inl (PyExc ZeroDivisionError ''division by zero'')
      else Inr (midi\<lparr>eventlist := eventlist midi @ [TempoEvent track time tempo]\<rparr>))"

definition addNote ::
  "midifile \<Rightarrow> nat \<Rightarrow> nat \<Rightarrow> int \<Rightarrow> pyval \<Rightarrow> pyval \<Rightarrow> int \<Rightarrow> midifile" where
  "addNote midi track channel pitch time duration volume =
     midi\<lparr>eventlist := eventlist midi @ [NoteEvent track channel pitch time duration volume]\<rparr>"

fun is_note :: "midi_event \<Rightarrow> bool" where
  "is_note (NoteEvent _ _ _ _ _ _) = True"
| "is_note _ = False"

section \<open>AudioToMidi.convert_audio_to_midi\<close>

text \<open>The object returned by the inference library: instruments, each with its notes.\<close>

record pm_note =
  note_pitch :: pyval
  note_start :: pyval
  note_end :: pyval
  note_velocity :: pyval

record instrument =
  instrument_notes :: "pm_note list"

record pretty_midi =
  instruments :: "instrument list"

text \<open>
  The tuple \<^verbatim>\<open>(int(note.pitch), float(note.start), float(note.end), int(note.velocity))\<close>,
  its fields evaluated from left to right.
\<close>

definition note_tuple :: "pm_note \<Rightarrow> pyexc + pyval list" where
  "note_tuple n =
     (case py_int (note_pitch n) of Inl e \<Rightarrow> Inl e | Inr p \<Rightarrow>
      (case py_float (note_start n) of Inl e \<Rightarrow> Inl e | Inr s \<Rightarrow>
       (case py_float (note_end n) of Inl e \<Rightarrow> Inl e | Inr t \<Rightarrow>
        (case py_int (note_velocity n) of Inl e \<Rightarrow> Inl e | Inr v \<Rightarrow>
           Inr [PInt p, PFloat s, PFloat t, PInt v]))))"

text \<open>The inner loop, over the notes of one instrument.\<close>

fun append_notes :: "pyval list list \<Rightarrow> pm_note list \<Rightarrow> pyexc + pyval list list" where
  "append_notes processed [] = Inr processed"
| "append_notes processed (n # ns) =
     (case note_tuple n of
        Inl e \<Rightarrow> Inl e
      | Inr x \<Rightarrow> append_notes (processed @ [x]) ns)"

text \<open>The outer loop, over the instruments.\<close>

fun append_instruments :: "pyval list list \<Rightarrow> instrument list \<Rightarrow> pyexc + pyval list list" where
  "append_instruments processed [] = Inr processed"
| "append_instruments processed (i # is) =
     (case append_notes processed (instrument_notes i) of
        Inl e \<Rightarrow> Inl e
      | Inr processed' \<Rightarrow> append_instruments processed' is)"

definition conversion_prefix :: string where
  "conversion_prefix = ''Error during audio-to-MIDI conversion: ''"

text \<open>
  The method. The inference function \<^verbatim>\<open>predict\<close> is a parameter: it reads the world
  and returns its three results or raises. Each call of it is logged in the world.
  The method returns a one-element tuple holding the list; the model returns the list.
\<close>

definition convert_audio_to_midi ::
  "(world \<Rightarrow> string \<Rightarrow> real \<Rightarrow> real \<Rightarrow> pyexc + ('m \<times> pretty_midi \<times> 'e)) \<Rightarrow>
   world \<Rightarrow> string \<Rightarrow> real \<Rightarrow> real \<Rightarrow> (pyexc + pyval list list) \<times> world" where
  "convert_audio_to_midi predict w audio_path onset_threshold frame_threshold =
     (if \<not> os_path_exists w audio_path then
        (Inl (PyExc ValueError (''Audio file not found: '' @ audio_path)), w)
      else
        let w1 = w\<lparr>predict_calls :=
                     predict_calls w @ [(audio_path, onset_threshold, frame_threshold)]\<rparr>
        in (case predict w audio_path onset_threshold frame_threshold of
              Inl e \<Rightarrow> (Inl (except_Exception conversion_prefix e), w1)
            | Inr (model_output, midi_data, note_events) \<Rightarrow>
                (case append_instruments [] (instruments midi_data) of
                   Inl e \<Rightarrow> (Inl (except_Exception conversion_prefix e), w1)
                 | Inr processed_midi_data \<Rightarrow>
                     (case list_sort (\<lambda>x. py_index x 1) processed_midi_data of
                        Inl e \<Rightarrow> (Inl (except_Exception conversion_prefix e), w1)
                      | Inr sorted_midi_data \<Rightarrow> (Inr sorted_midi_data, w1)))))"

section \<open>SaveMidi.save_midi\<close>

text \<open>The body of the loop over \<^verbatim>\<open>midi_data\<close>, for one entry.\<close>

definition add_entry :: "midifile \<Rightarrow> pyval list \<Rightarrow> pyexc + midifile" where
  "add_entry midi entry =
     (if length entry \<noteq> 4 then Inr midi
      else
        let pitch = entry ! 0; start_time = entry ! 1;
            end_time = entry ! 2; velocity = entry ! 3
        in (case py_sub end_time start_time of Inl e \<Rightarrow> Inl e | Inr duration \<Rightarrow>
            (case py_int pitch of Inl e \<Rightarrow> Inl e | Inr p \<Rightarrow>
             (case py_int velocity of Inl e \<Rightarrow> Inl e | Inr v \<Rightarrow>
                Inr (addNote midi 0 0 (max 0 (min 127 p)) start_time duration
                       (max 0 (min 127 v)))))))"

fun add_notes :: "midifile \<Rightarrow> pyval list list \<Rightarrow> pyexc + midifile" where
  "add_notes midi [] = Inr midi"
| "add_notes midi (entry # rest) =
     (case add_entry midi entry of
        Inl e \<Rightarrow> Inl e
      | Inr midi' \<Rightarrow> add_notes midi' rest)"

text \<open>Lines 109 to 116: the new object with the name and the tempo of its track.\<close>

definition new_track :: "int \<Rightarrow> pyexc + midifile" where
  "new_track tempo = addTempo (addTrackName (MIDIFile 1) 0 0 ''Track 1'') 0 0 tempo"

text \<open>Lines 109 to 137: the object with its notes.\<close>

definition build_track :: "int \<Rightarrow> pyval list list \<Rightarrow> pyexc + midifile" where
  "build_track tempo midi_data =
     (case new_track tempo of
        Inl e \<Rightarrow> Inl e
      | Inr midi \<Rightarrow> add_notes midi midi_data)"

definition saving_prefix :: string where
  "saving_prefix = ''Error saving MIDI file: ''"

text \<open>
  Lines 139 to 150: the directory is made outside the \<^verbatim>\<open>try\<close>, the file is opened and
  written inside it.
\<close>

definition persist ::
  "(midifile \<Rightarrow> byte list \<times> pyexc option) \<Rightarrow> world \<Rightarrow> midifile \<Rightarrow> string \<Rightarrow> string \<Rightarrow>
   (pyexc + unit) \<times> world" where
  "persist writeFile w midi file_name output_path =
     (case os_makedirs w output_path of
        (Some e, w1) \<Rightarrow> (Inl e, w1)
      | (None, w1) \<Rightarrow>
          let output_file = os_path_join output_path file_name
          in (case open_wb w1 output_file of
                Inl e \<Rightarrow> (Inl (except_Exception saving_prefix e), w1)
              | Inr (f, w2) \<Rightarrow>
                  (case writeFile midi of
                     (bs, None) \<Rightarrow> (Inr (), write_close w2 f bs)
                   | (bs, Some e) \<Rightarrow>
                       (Inl (except_Exception saving_prefix e), write_close w2 f bs))))"

definition save_midi ::
  "(midifile \<Rightarrow> byte list \<times> pyexc option) \<Rightarrow> world \<Rightarrow> pyval list list \<Rightarrow> string \<Rightarrow> string \<Rightarrow>
   int \<Rightarrow> (pyexc + unit) \<times> world" where
  "save_midi writeFile w midi_data file_name output_path tempo =
     (if midi_data = [] then (Inl (PyExc ValueError ''No MIDI data provided''), w)
      else (case build_track tempo midi_data of
              Inl e \<Rightarrow> (Inl e, w)
            | Inr midi \<Rightarrow> persist writeFile w midi file_name output_path))"

section \<open>Auxiliary definitions\<close>

text \<open>The number that a numeric value stands for.\<close>

fun num :: "pyval \<Rightarrow> real" where
  "num (PInt i) = of_int i"
| "num (PFloat r) = r"
| "num PNone = 0"

fun is_num :: "pyval \<Rightarrow> bool" where
  "is_num PNone = False"
| "is_num _ = True"

text \<open>A tuple of an integer, two floats and an integer.\<close>

fun is_note_tuple :: "pyval list \<Rightarrow> bool" where
  "is_note_tuple [PInt p, PFloat s, PFloat t, PInt v] = True"
| "is_note_tuple _ = False"

text \<open>Every directory that \<^verbatim>\<open>os.makedirs\<close> goes through exists.\<close>

fun all_dirs :: "(path \<Rightarrow> node option) \<Rightarrow> path \<Rightarrow> string list \<Rightarrow> bool" where
  "all_dirs f cur [] = True"
| "all_dirs f cur (c # cs) =
     (if c = [] \<or> c = ''.'' then all_dirs f cur cs
      else if c = ''..'' then all_dirs f (butlast cur) cs
      else f (cur @ [c]) = Some Dir \<and> all_dirs f (cur @ [c]) cs)"

text \<open>
  A small world for concrete runs: a directory \<^verbatim>\<open>/music\<close> holding \<^verbatim>\<open>a.wav\<close>, and a
  regular file \<^verbatim>\<open>/out.txt\<close>.
\<close>

definition demo_world :: world where
  "demo_world =
     \<lparr>fs = [[''music''] \<mapsto> Dir, [''music'', ''a.wav''] \<mapsto> File [82, 73],
            [''out.txt''] \<mapsto> File []],
      cwd = [], predict_calls = []\<rparr>"

text \<open>
  An inference function for concrete runs: two instruments, whose notes are not in the
  order of their start, for a regular file; an error for anything else.
\<close>

definition demo_predict ::
  "world \<Rightarrow> string \<Rightarrow> real \<Rightarrow> real \<Rightarrow> pyexc + (unit \<times> pretty_midi \<times> unit)" where
  "demo_predict w audio_path onset_threshold frame_threshold =
     (case os_stat w audio_path of
        Inr (File _) \<Rightarrow>
          Inr ((),
               \<lparr>instruments =
                  [\<lparr>instrument_notes =
                      [\<lparr>note_pitch = PInt 64, note_start = PFloat 1, note_end = PFloat 2,
                        note_velocity = PInt 90\<rparr>,
                       \<lparr>note_pitch = PFloat 60, note_start = PFloat (1 / 2), note_end = PInt 1,
                        note_velocity = PInt 100\<rparr>]\<rparr>,
                   \<lparr>instrument_notes =
                      [\<lparr>note_pitch = PInt 67, note_start = PFloat (1 / 2), note_end = PFloat 3,
                        note_velocity = PInt 80\<rparr>]\<rparr>]\<rparr>,
               ())
      | Inr Dir \<Rightarrow> Inl (os_error IsADirectoryError audio_path)
      | Inl e \<Rightarrow> Inl e)"

text \<open>An inference call that is interrupted from the keyboard.\<close>

definition interrupted_predict ::
  "world \<Rightarrow> string \<Rightarrow> real \<Rightarrow> real \<Rightarrow> pyexc + (unit \<times> pretty_midi \<times> unit)" where
  "interrupted_predict w audio_path onset_threshold frame_threshold =
     Inl (PyExc KeyboardInterrupt [])"

text \<open>A serialisation for concrete runs: one byte for each event.\<close>

definition demo_writeFile :: "midifile \<Rightarrow> byte list \<times> pyexc option" where
  "demo_writeFile midi =
     (map (\<lambda>ev. case ev of
                  TrackNameEvent _ _ _ \<Rightarrow> 3
                | TempoEvent _ _ t \<Rightarrow> word_of_int t
                | NoteEvent _ _ p _ _ _ \<Rightarrow> word_of_int p) (eventlist midi), None)"

text \<open>A serialisation that fails after two bytes.\<close>

definition failing_writeFile :: "midifile \<Rightarrow> byte list \<times> pyexc option" where
  "failing_writeFile midi = ([77, 84], Some (PyExc (OtherError ''struct.error'') ''bad delta time''))"

section \<open>Directory creation and file opening\<close>

lemma split_sep_not_Nil: "split_sep s \<noteq> []"
  by (induction s) (auto split: list.splits)

lemma mkdir_chain_keeps_dir:
  "mkdir_chain f name seen cur cs = (r, f') \<Longrightarrow> f p = Some Dir \<Longrightarrow> f' p = Some Dir"
proof (induction cs arbitrary: f seen cur)
  case Nil
  then show ?case by simp
next
  case (Cons c cs)
  show ?case
  proof (cases "c = [] \<or> c = ''.'' \<or> c = ''..''")
    case True
    with Cons.prems Cons.IH show ?thesis
      by (auto split: if_splits)
  next
    case False
    show ?thesis
    proof (cases "f (cur @ [c])")
      case None
      with False Cons.prems
      have "mkdir_chain (f(cur @ [c] \<mapsto> Dir)) name (seen @ [c]) (cur @ [c]) cs = (r, f')"
        by simp
      moreover from Cons.prems have "(f(cur @ [c] \<mapsto> Dir)) p = Some Dir" by simp
      ultimately show ?thesis by (rule Cons.IH)
    next
      case (Some n)
      with False Cons.prems Cons.IH show ?thesis
        by (cases n) auto
    qed
  qed
qed

lemma mkdir_chain_all_dirs:
  "mkdir_chain f name seen cur cs = (None, f') \<Longrightarrow> all_dirs f' cur cs"
proof (induction cs arbitrary: f seen cur)
  case Nil
  then show ?case by simp
next
  case (Cons c cs)
  show ?case
  proof (cases "c = [] \<or> c = ''.'' \<or> c = ''..''")
    case True
    with Cons.prems Cons.IH show ?thesis
      by (auto split: if_splits)
  next
    case False
    show ?thesis
    proof (cases "f (cur @ [c])")
      case None
      with False Cons.prems
      have step: "mkdir_chain (f(cur @ [c] \<mapsto> Dir)) name (seen @ [c]) (cur @ [c]) cs = (None, f')"
        by simp
      have "f' (cur @ [c]) = Some Dir"
        by (rule mkdir_chain_keeps_dir [OF step]) simp
      with Cons.IH [OF step] False show ?thesis by simp
    next
      case (Some n)
      show ?thesis
      proof (cases n)
        case Dir
        with Some False Cons.prems
        have step: "mkdir_chain f name (seen @ [c]) (cur @ [c]) cs = (None, f')"
          by simp
        have "f' (cur @ [c]) = Some Dir"
          by (rule mkdir_chain_keeps_dir [OF step]) (simp add: Some Dir)
        with Cons.IH [OF step] False show ?thesis by simp
      next
        case (File bs)
        with Some False Cons.prems show ?thesis by simp
      qed
    qed
  qed
qed

lemma all_dirs_mkdir_chain:
  "all_dirs g cur cs \<Longrightarrow> mkdir_chain g name seen cur cs = (None, g)"
  by (induction cs arbitrary: seen cur) auto

lemma all_dirs_upd:
  "all_dirs g cur cs \<Longrightarrow> g q \<noteq> Some Dir \<Longrightarrow> all_dirs (g(q := x)) cur cs"
  by (induction cs arbitrary: cur) auto

lemma node_of_upd:
  "node_of f p = Some Dir \<Longrightarrow> f q \<noteq> Some Dir \<Longrightarrow> node_of (f(q := x)) p = Some Dir"
  by (auto simp: node_of_def split: if_splits)

lemma walk_upd:
  "walk f cur cs = Inr p \<Longrightarrow> f q \<noteq> Some Dir \<Longrightarrow> walk (f(q := x)) cur cs = Inr p"
proof (induction cs arbitrary: cur)
  case Nil
  then show ?case by simp
next
  case (Cons c cs)
  from Cons.prems(1) have d: "node_of f cur = Some Dir"
    by (auto split: option.splits node.splits)
  then have d': "node_of (f(q := x)) cur = Some Dir"
    using Cons.prems(2) by (rule node_of_upd)
  from Cons.prems(1) d Cons.IH [OF _ Cons.prems(2)] show ?case
    by (auto simp: d' simp del: fun_upd_apply split: if_splits)
qed

lemma walk_append:
  "walk f cur (xs @ ys) = (case walk f cur xs of Inl e \<Rightarrow> Inl e | Inr p \<Rightarrow> walk f p ys)"
  by (induction xs arbitrary: cur) (auto split: option.splits node.splits)

lemma makedirs_again:
  assumes "os_makedirs w name = (None, w1)" and "fs w1 q \<noteq> Some Dir"
  shows "os_makedirs (w1\<lparr>fs := (fs w1)(q \<mapsto> File bs)\<rparr>) name = (None, w1\<lparr>fs := (fs w1)(q \<mapsto> File bs)\<rparr>)"
proof -
  from assms(1) have ne: "name \<noteq> []"
    by (auto simp: os_makedirs_def split: if_splits)
  with assms(1) have ch: "mkdir_chain (fs w) name [] (start_dir w name) (split_sep name) = (None, fs w1)"
    and cw: "cwd w1 = cwd w"
    by (auto simp: os_makedirs_def split: prod.splits)
  from cw have rs: "start_dir (w1\<lparr>fs := (fs w1)(q \<mapsto> File bs)\<rparr>) name = start_dir w name"
    by (simp add: start_dir_def)
  have "all_dirs (fs w1) (start_dir w name) (split_sep name)"
    by (rule mkdir_chain_all_dirs [OF ch])
  then have "all_dirs ((fs w1)(q \<mapsto> File bs)) (start_dir w name) (split_sep name)"
    using assms(2) by (rule all_dirs_upd)
  then have "mkdir_chain ((fs w1)(q \<mapsto> File bs)) name [] (start_dir w name) (split_sep name)
             = (None, (fs w1)(q \<mapsto> File bs))"
    by (rule all_dirs_mkdir_chain)
  with ne rs show ?thesis
    by (simp add: os_makedirs_def)
qed


lemma path_body_eq:
  "last (split_sep name) \<noteq> [] \<Longrightarrow> path_body name = split_sep name"
  by (cases "rev (split_sep name)") (auto simp: path_body_def split_sep_not_Nil last_rev)

lemma open_wb_after_write:
  assumes "open_wb w1 name = Inr (q, w2)"
  shows "w2 = w1\<lparr>fs := (fs w1)(q \<mapsto> File [])\<rparr> \<and> fs w1 q \<noteq> Some Dir
       \<and> open_wb (w1\<lparr>fs := (fs w1)(q \<mapsto> File bs)\<rparr>) name
           = Inr (q, w1\<lparr>fs := (fs w1)(q \<mapsto> File [])\<rparr>)
       \<and> os_stat (w1\<lparr>fs := (fs w1)(q \<mapsto> File bs)\<rparr>) name = Inr (File bs)"
proof -
  let ?cs = "split_sep name"
  let ?w' = "w1\<lparr>fs := (fs w1)(q \<mapsto> File bs)\<rparr>"
  from assms have ne: "name \<noteq> []" and bne: "path_body name \<noteq> []"
    by (auto simp: open_wb_def Let_def split: if_splits)
  with assms obtain par where
    wk0: "walk (fs w1) (start_dir w1 name) (butlast (path_body name)) = Inr par"
    by (auto simp: open_wb_def Let_def split: if_splits sum.splits)
  with assms ne bne have par: "node_of (fs w1) par = Some Dir"
    by (auto simp: open_wb_def Let_def split: if_splits option.splits node.splits)
  with assms ne bne wk0 have lc: "last ?cs \<noteq> []"
    by (auto simp: open_wb_def Let_def split: if_splits)
  then have body: "path_body name = ?cs"
    by (rule path_body_eq)
  from wk0 have wk: "walk (fs w1) (start_dir w1 name) (butlast ?cs) = Inr par"
    by (simp add: body)
  from assms ne bne wk par lc have ld: "last ?cs \<noteq> ''.''" and ldd: "last ?cs \<noteq> ''..''"
    by (auto simp: open_wb_def Let_def body split: if_splits)
  from assms ne bne wk par lc ld ldd have q: "q = par @ [last ?cs]"
    and nd: "fs w1 (par @ [last ?cs]) \<noteq> Some Dir"
    and w2: "w2 = w1\<lparr>fs := (fs w1)(par @ [last ?cs] \<mapsto> File [])\<rparr>"
    by (auto simp: open_wb_def Let_def body split: if_splits option.splits node.splits)
  have sd: "start_dir ?w' name = start_dir w1 name"
    by (simp add: start_dir_def)
  from nd q have ndq: "fs w1 q \<noteq> Some Dir" by simp
  have wk': "walk (fs ?w') (start_dir w1 name) (butlast ?cs) = Inr par"
    using walk_upd [OF wk ndq, of "Some (File bs)"] by simp
  have par': "node_of (fs ?w') par = Some Dir"
    using node_of_upd [OF par ndq, of "Some (File bs)"] by simp
  have fq: "fs ?w' (par @ [last ?cs]) = Some (File bs)"
    using q by simp
  have csne: "?cs \<noteq> []" by (rule split_sep_not_Nil)
  have op: "open_wb ?w' name = Inr (q, w1\<lparr>fs := (fs w1)(q \<mapsto> File [])\<rparr>)"
    using ne csne lc ld ldd q [symmetric] wk' par' fq
    by (simp add: open_wb_def Let_def body sd)
  have cs: "?cs = butlast ?cs @ [last ?cs]"
    by (simp add: split_sep_not_Nil)
  have "walk (fs ?w') (start_dir w1 name) ?cs = walk (fs ?w') par [last ?cs]"
    by (subst cs, simp only: walk_append wk', simp)
  also have "\<dots> = Inr q"
    using lc ld ldd q [symmetric] par' by simp
  finally have "walk (fs ?w') (start_dir w1 name) ?cs = Inr q" .
  moreover have "node_of (fs ?w') q = Some (File bs)"
    using q by (simp add: node_of_def)
  ultimately have st: "os_stat ?w' name = Inr (File bs)"
    using ne by (simp add: os_stat_def sd)
  from w2 q ndq op st show ?thesis by simp
qed

lemma write_close_after_open:
  "write_close (w\<lparr>fs := (fs w)(q \<mapsto> File [])\<rparr>) q bs = w\<lparr>fs := (fs w)(q \<mapsto> File bs)\<rparr>"
  by (simp add: write_close_def)

lemma persist_result:
  assumes "persist writeFile w midi file_name output_path = (Inr (), w')"
  shows "persist writeFile w' midi file_name output_path = (Inr (), w')
       \<and> os_makedirs w' output_path = (None, w')
       \<and> os_stat w' (os_path_join output_path file_name) = Inr (File (fst (writeFile midi)))"
proof -
  from assms obtain w1 where mk: "os_makedirs w output_path = (None, w1)"
    by (auto simp: persist_def split: prod.splits option.splits)
  with assms obtain q w2 where op: "open_wb w1 (os_path_join output_path file_name) = Inr (q, w2)"
    by (auto simp: persist_def Let_def split: sum.splits prod.splits option.splits)
  with mk assms obtain bs where wr: "writeFile midi = (bs, None)" and w': "w' = write_close w2 q bs"
    by (auto simp: persist_def Let_def split: sum.splits prod.splits option.splits)
  note ow = open_wb_after_write [OF op, of bs]
  from ow w' have w'_eq: "w' = w1\<lparr>fs := (fs w1)(q \<mapsto> File bs)\<rparr>"
    by (simp add: write_close_after_open)
  from ow have nd: "fs w1 q \<noteq> Some Dir" by simp
  have mk': "os_makedirs w' output_path = (None, w')"
    unfolding w'_eq by (rule makedirs_again [OF mk nd])
  from ow have op': "open_wb w' (os_path_join output_path file_name)
                       = Inr (q, w1\<lparr>fs := (fs w1)(q \<mapsto> File [])\<rparr>)"
    unfolding w'_eq by simp
  from ow wr have st: "os_stat w' (os_path_join output_path file_name)
                         = Inr (File (fst (writeFile midi)))"
    unfolding w'_eq by simp
  have "persist writeFile w' midi file_name output_path = (Inr (), w')"
    using mk' op' wr by (simp add: persist_def write_close_after_open w'_eq)
  with mk' st show ?thesis by simp
qed

section \<open>The converter\<close>

lemma except_Exception_wraps:
  "is_Exception (exc_cls e) \<Longrightarrow> except_Exception prefix e = PyExc RuntimeError (prefix @ exc_str e)"
  by (simp add: except_Exception_def)

lemma except_Exception_passes:
  "\<not> is_Exception (exc_cls e) \<Longrightarrow> except_Exception prefix e = e"
  by (simp add: except_Exception_def)

lemma except_Exception_class:
  "is_Exception (exc_cls (except_Exception prefix e)) \<Longrightarrow>
   exc_cls (except_Exception prefix e) = RuntimeError"
  by (cases "is_Exception (exc_cls e)") (simp_all add: except_Exception_def)

lemma except_Exception_not_ValueError:
  "exc_cls (except_Exception prefix e) \<noteq> ValueError"
  by (cases "exc_cls e") (auto simp: except_Exception_def)

lemma note_tuple_shape:
  "note_tuple n = Inr x \<Longrightarrow> is_note_tuple x"
  by (auto simp: note_tuple_def split: sum.splits)

lemma append_notes_shape:
  "append_notes acc ns = Inr out \<Longrightarrow> \<forall>x \<in> set acc. is_note_tuple x \<Longrightarrow>
   \<forall>x \<in> set out. is_note_tuple x"
proof (induction ns arbitrary: acc)
  case Nil
  then show ?case by simp
next
  case (Cons n ns)
  from Cons.prems(1) obtain x where x: "note_tuple n = Inr x"
    and r: "append_notes (acc @ [x]) ns = Inr out"
    by (auto split: sum.splits)
  from x have "is_note_tuple x" by (rule note_tuple_shape)
  with Cons.prems(2) have "\<forall>y \<in> set (acc @ [x]). is_note_tuple y" by simp
  with r show ?case by (rule Cons.IH)
qed

lemma append_instruments_shape:
  "append_instruments acc is = Inr out \<Longrightarrow> \<forall>x \<in> set acc. is_note_tuple x \<Longrightarrow>
   \<forall>x \<in> set out. is_note_tuple x"
proof (induction "is" arbitrary: acc)
  case Nil
  then show ?case by simp
next
  case (Cons i "is")
  from Cons.prems(1) obtain acc' where a: "append_notes acc (instrument_notes i) = Inr acc'"
    and r: "append_instruments acc' is = Inr out"
    by (auto split: sum.splits)
  from a Cons.prems(2) have "\<forall>x \<in> set acc'. is_note_tuple x" by (rule append_notes_shape)
  with r show ?case by (rule Cons.IH)
qed

lemma is_note_tuple_cases:
  "is_note_tuple x \<Longrightarrow> \<exists>p s t v. x = [PInt p, PFloat s, PFloat t, PInt v]"
  by (induction x rule: is_note_tuple.induct) simp_all

lemma py_lt_num:
  "is_num a \<Longrightarrow> is_num b \<Longrightarrow> py_lt a b = Inr (num a < num b)"
  by (cases a; cases b) simp_all

lemma py_insort_num:
  "is_num (fst x) \<Longrightarrow> \<forall>y \<in> set ys. is_num (fst y) \<Longrightarrow>
   py_insort x ys = Inr (insort_key (\<lambda>d. num (fst d)) x ys)"
  by (induction ys) (auto simp: py_lt_num)

lemma py_sort_num:
  "\<forall>d \<in> set ds. is_num (fst d) \<Longrightarrow> py_sort ds = Inr (sort_key (\<lambda>d. num (fst d)) ds)"
  by (induction ds) (simp_all add: py_insort_num)

lemma decorate_index:
  "\<forall>x \<in> set xs. is_note_tuple x \<Longrightarrow>
   decorate (\<lambda>x. py_index x 1) xs = Inr (map (\<lambda>x. (x ! 1, x)) xs)"
proof (induction xs)
  case Nil
  then show ?case by simp
next
  case (Cons x xs)
  from Cons.prems have "is_note_tuple x" by simp
  then obtain p s t v where "x = [PInt p, PFloat s, PFloat t, PInt v]"
    using is_note_tuple_cases by blast
  then have "py_index x 1 = Inr (x ! 1)" by (simp add: py_index_def)
  with Cons show ?case by simp
qed

lemma map_snd_insort:
  "\<forall>d \<in> set ds. fst d = h (snd d) \<Longrightarrow>
   map snd (insort_key (\<lambda>d. g (fst d)) (h x, x) ds) = insort_key (\<lambda>x. g (h x)) x (map snd ds)"
  by (induction ds) auto

lemma map_snd_sort:
  "map snd (sort_key (\<lambda>d. g (fst d)) (map (\<lambda>x. (h x, x)) xs)) = sort_key (\<lambda>x. g (h x)) xs"
proof (induction xs)
  case Nil
  then show ?case by simp
next
  case (Cons x xs)
  have "\<forall>d \<in> set (sort_key (\<lambda>d. g (fst d)) (map (\<lambda>x. (h x, x)) xs)). fst d = h (snd d)"
    by auto
  then show ?case
    using Cons.IH by (simp add: map_snd_insort)
qed

lemma list_sort_note_tuples:
  assumes "\<forall>x \<in> set xs. is_note_tuple x"
  shows "list_sort (\<lambda>x. py_index x 1) xs = Inr (sort_key (\<lambda>x. num (x ! 1)) xs)"
proof -
  have d: "decorate (\<lambda>x. py_index x 1) xs = Inr (map (\<lambda>x. (x ! 1, x)) xs)"
    using assms by (rule decorate_index)
  have "is_num (x ! 1)" if "x \<in> set xs" for x
  proof -
    from that assms obtain p s t v where "x = [PInt p, PFloat s, PFloat t, PInt v]"
      using is_note_tuple_cases by blast
    then show ?thesis by simp
  qed
  then have "\<forall>d \<in> set (map (\<lambda>x. (x ! 1, x)) xs). is_num (fst d)" by auto
  then have "py_sort (map (\<lambda>x. (x ! 1, x)) xs)
               = Inr (sort_key (\<lambda>d. num (fst d)) (map (\<lambda>x. (x ! 1, x)) xs))"
    by (rule py_sort_num)
  moreover
  have "map snd (sort_key (\<lambda>d. num (fst d)) (map (\<lambda>x. (x ! 1, x)) xs))
          = sort_key (\<lambda>x. num (x ! 1)) xs"
    by (rule map_snd_sort)
  ultimately show ?thesis
    using d unfolding list_sort_def by (simp only: sum.case)
qed

lemma convert_result:
  assumes "convert_audio_to_midi predict w audio_path onset_threshold frame_threshold
             = (Inr out, w')"
  shows "\<exists>model_output midi_data note_events flat.
            predict w audio_path onset_threshold frame_threshold
              = Inr (model_output, midi_data, note_events)
          \<and> append_instruments [] (instruments midi_data) = Inr flat
          \<and> (\<forall>x \<in> set flat. is_note_tuple x)
          \<and> out = sort_key (\<lambda>x. num (x ! 1)) flat"
proof -
  from assms obtain model_output midi_data note_events flat where
    pr: "predict w audio_path onset_threshold frame_threshold
           = Inr (model_output, midi_data, note_events)"
    and fl: "append_instruments [] (instruments midi_data) = Inr flat"
    and out: "list_sort (\<lambda>x. py_index x 1) flat = Inr out"
    by (auto simp: convert_audio_to_midi_def Let_def split: if_splits sum.splits prod.splits)
  from fl have sh: "\<forall>x \<in> set flat. is_note_tuple x"
    by (rule append_instruments_shape) simp
  have "out = sort_key (\<lambda>x. num (x ! 1)) flat"
    using list_sort_note_tuples [OF sh] out by simp
  with pr fl sh show ?thesis by blast
qed

text \<open>
  Claim C1. Whenever \<^verbatim>\<open>convert_audio_to_midi\<close> returns a list, that list is in
  non-decreasing order of the start time: for each element and its successor,
  \<^verbatim>\<open>notes[i][1] <= notes[i+1][1]\<close> is true. The sort is stable: the list holds the
  notes flattened from the result of the inference function, and for every start time
  the notes with that start time are in the order in which they were flattened.
\<close>

theorem convert_sorted_stable:
  assumes "convert_audio_to_midi predict w audio_path onset_threshold frame_threshold
             = (Inr out, w')"
  shows "(\<forall>i. i + 1 < length out \<longrightarrow> py_le (out ! i ! 1) (out ! (i + 1) ! 1) = Inr True)
       \<and> (\<exists>model_output midi_data note_events flat.
            predict w audio_path onset_threshold frame_threshold
              = Inr (model_output, midi_data, note_events)
          \<and> append_instruments [] (instruments midi_data) = Inr flat
          \<and> mset out = mset flat
          \<and> (\<forall>k. filter (\<lambda>x. x ! 1 = k) out = filter (\<lambda>x. x ! 1 = k) flat))"
proof -
  from convert_result [OF assms] obtain model_output midi_data note_events flat where
    pr: "predict w audio_path onset_threshold frame_threshold
           = Inr (model_output, midi_data, note_events)"
    and fl: "append_instruments [] (instruments midi_data) = Inr flat"
    and sh: "\<forall>x \<in> set flat. is_note_tuple x"
    and out: "out = sort_key (\<lambda>x. num (x ! 1)) flat"
    by blast
  have sho: "\<forall>x \<in> set out. is_note_tuple x"
    using sh by (simp add: out)
  have key: "x ! 1 = PFloat (num (x ! 1))" if "is_note_tuple x" for x
  proof -
    from that obtain p s t v where "x = [PInt p, PFloat s, PFloat t, PInt v]"
      using is_note_tuple_cases by blast
    then show ?thesis by simp
  qed
  have "sorted (map (\<lambda>x. num (x ! 1)) out)"
    unfolding out by (rule sorted_sort_key)
  then have nums: "\<forall>i. Suc i < length out \<longrightarrow> num (out ! i ! 1) \<le> num (out ! Suc i ! 1)"
    by (simp add: sorted_iff_nth_Suc)
  have ordered: "py_le (out ! i ! 1) (out ! (i + 1) ! 1) = Inr True" if "i + 1 < length out" for i
  proof -
    from that sho have a: "is_note_tuple (out ! i)" and b: "is_note_tuple (out ! (i + 1))"
      by simp_all
    from nums that have "num (out ! i ! 1) \<le> num (out ! (i + 1) ! 1)" by simp
    then have "py_le (PFloat (num (out ! i ! 1))) (PFloat (num (out ! (i + 1) ! 1))) = Inr True"
      by simp
    with key [OF a] key [OF b] show ?thesis by simp
  qed
  have stable: "filter (\<lambda>x. x ! 1 = k) out = filter (\<lambda>x. x ! 1 = k) flat" for k
  proof -
    have eq: "(x ! 1 = k) = (k = PFloat (num k) \<and> num (x ! 1) = num k)" if "is_note_tuple x" for x
      using key [OF that] by (metis num.simps(2))
    have "filter (\<lambda>x. x ! 1 = k) out
            = filter (\<lambda>x. k = PFloat (num k) \<and> num (x ! 1) = num k) out"
      by (rule filter_cong) (use sho eq in auto)
    also have "\<dots> = filter (\<lambda>x. k = PFloat (num k)) (filter (\<lambda>x. num (x ! 1) = num k) out)"
      by (simp add: conj_commute)
    also have "filter (\<lambda>x. num (x ! 1) = num k) out = filter (\<lambda>x. num (x ! 1) = num k) flat"
      unfolding out by (rule sort_key_stable)
    also have "filter (\<lambda>x. k = PFloat (num k)) (filter (\<lambda>x. num (x ! 1) = num k) flat)
                 = filter (\<lambda>x. k = PFloat (num k) \<and> num (x ! 1) = num k) flat"
      by (simp add: conj_commute)
    also have "\<dots> = filter (\<lambda>x. x ! 1 = k) flat"
      by (rule filter_cong) (use sh eq in auto)
    finally show ?thesis .
  qed
  have "mset out = mset flat"
    unfolding out by simp
  with pr fl ordered stable show ?thesis by blast
qed

lemma demo_convert:
  "convert_audio_to_midi demo_predict demo_world ''/music/a.wav'' (1 / 2) (3 / 10)
     = (Inr [[PInt 60, PFloat (1 / 2), PFloat 1, PInt 100],
             [PInt 67, PFloat (1 / 2), PFloat 3, PInt 80],
             [PInt 64, PFloat 1, PFloat 2, PInt 90]],
        demo_world\<lparr>predict_calls := [(''/music/a.wav'', 1 / 2, 3 / 10)]\<rparr>)"
  by (simp add: convert_audio_to_midi_def os_path_exists_def os_stat_def node_of_def
        start_dir_def demo_world_def demo_predict_def note_tuple_def list_sort_def py_index_def)

lemma demo_flat:
  "append_instruments []
     (instruments (fst (snd (projr (demo_predict demo_world ''/music/a.wav'' (1 / 2) (3 / 10))))))
     = Inr [[PInt 64, PFloat 1, PFloat 2, PInt 90],
            [PInt 60, PFloat (1 / 2), PFloat 1, PInt 100],
            [PInt 67, PFloat (1 / 2), PFloat 3, PInt 80]]"
  by (simp add: os_stat_def node_of_def start_dir_def demo_world_def demo_predict_def
        note_tuple_def)

theorem convert_sorted_stable_witness:
  "fst (convert_audio_to_midi demo_predict demo_world ''/music/a.wav'' (1 / 2) (3 / 10))
     = Inr [[PInt 60, PFloat (1 / 2), PFloat 1, PInt 100],
            [PInt 67, PFloat (1 / 2), PFloat 3, PInt 80],
            [PInt 64, PFloat 1, PFloat 2, PInt 90]]
   \<and> py_le (PFloat (1 / 2)) (PFloat (1 / 2)) = Inr True
   \<and> py_le (PFloat (1 / 2)) (PFloat 1) = Inr True
   \<and> append_instruments []
         (instruments (fst (snd (projr (demo_predict demo_world ''/music/a.wav'' (1 / 2) (3 / 10))))))
       = Inr [[PInt 64, PFloat 1, PFloat 2, PInt 90],
              [PInt 60, PFloat (1 / 2), PFloat 1, PInt 100],
              [PInt 67, PFloat (1 / 2), PFloat 3, PInt 80]]"
proof -
  let ?out = "[[PInt 60, PFloat (1 / 2), PFloat 1, PInt 100],
               [PInt 67, PFloat (1 / 2), PFloat 3, PInt 80],
               [PInt 64, PFloat 1, PFloat 2, PInt 90]]"
  have ordered: "\<forall>i. i + 1 < length ?out \<longrightarrow> py_le (?out ! i ! 1) (?out ! (i + 1) ! 1) = Inr True"
    using convert_sorted_stable [OF demo_convert] by (rule conjunct1)
  have "py_le (?out ! 0 ! 1) (?out ! (0 + 1) ! 1) = Inr True"
    by (rule ordered [rule_format]) simp
  moreover
  have "py_le (?out ! 1 ! 1) (?out ! (1 + 1) ! 1) = Inr True"
    by (rule ordered [rule_format]) simp
  ultimately show ?thesis
    using demo_convert demo_flat by simp
qed

text \<open>
  Claim C3. For an empty note list \<^verbatim>\<open>save_midi\<close> raises the validation error
  \<^verbatim>\<open>ValueError("No MIDI data provided")\<close> and leaves the world as it was: no directory
  is created and no file is written.
\<close>

theorem save_midi_empty:
  "save_midi writeFile w [] file_name output_path tempo
     = (Inl (PyExc ValueError ''No MIDI data provided''), w)"
  by (simp add: save_midi_def)

theorem save_midi_empty_witness:
  "fst (save_midi demo_writeFile demo_world [] ''t.mid'' ''/out/midi'' 120)
     = Inl (PyExc ValueError ''No MIDI data provided'')
   \<and> fs (snd (save_midi demo_writeFile demo_world [] ''t.mid'' ''/out/midi'' 120)) [''out''] = None
   \<and> fs (snd (save_midi demo_writeFile demo_world [] ''t.mid'' ''/out/midi'' 120))
        [''out'', ''midi'', ''t.mid''] = None"
  using save_midi_empty [of demo_writeFile demo_world "''t.mid''" "''/out/midi''" 120]
  by (simp add: demo_world_def)

text \<open>
  Claim C2. For an \<^verbatim>\<open>audio_path\<close> that does not exist, \<^verbatim>\<open>convert_audio_to_midi\<close> raises
  the validation error whose message ends with the path, the world is unchanged and the
  log of the calls to the inference function is as before: the function was not called.
\<close>

theorem missing_path_rejected:
  assumes "\<not> os_path_exists w audio_path"
  shows "convert_audio_to_midi predict w audio_path onset_threshold frame_threshold
           = (Inl (PyExc ValueError (''Audio file not found: '' @ audio_path)), w)
         \<and> predict_calls
             (snd (convert_audio_to_midi predict w audio_path onset_threshold frame_threshold))
           = predict_calls w"
  using assms by (simp add: convert_audio_to_midi_def)

theorem missing_path_rejected_witness:
  "\<not> os_path_exists demo_world ''/music/b.wav''
   \<and> fst (convert_audio_to_midi demo_predict demo_world ''/music/b.wav'' (1 / 2) (3 / 10))
       = Inl (PyExc ValueError ''Audio file not found: /music/b.wav'')
   \<and> predict_calls
       (snd (convert_audio_to_midi demo_predict demo_world ''/music/b.wav'' (1 / 2) (3 / 10))) = []"
proof -
  have h: "\<not> os_path_exists demo_world ''/music/b.wav''"
    by (simp add: os_path_exists_def os_stat_def node_of_def start_dir_def demo_world_def)
  from missing_path_rejected [OF h, of demo_predict "1 / 2" "3 / 10"] h show ?thesis
    by (simp add: demo_world_def)
qed

text \<open>
  Claim C6 says that every exception raised inside the inference call is raised again
  as a \<^verbatim>\<open>RuntimeError\<close> and that no other exception type leaves the inference stage.
  The clause is \<^verbatim>\<open>except Exception\<close>: a \<^verbatim>\<open>KeyboardInterrupt\<close> raised during the call
  does not derive from \<^verbatim>\<open>Exception\<close> and leaves the method as it was raised.
\<close>

theorem interrupt_escapes_counterexample:
  "fst (convert_audio_to_midi interrupted_predict demo_world ''/music/a.wav'' (1 / 2) (3 / 10))
     = Inl (PyExc KeyboardInterrupt [])
   \<and> fst (convert_audio_to_midi interrupted_predict demo_world ''/music/a.wav'' (1 / 2) (3 / 10))
     \<noteq> Inl (PyExc RuntimeError ''Error during audio-to-MIDI conversion: '')"
  by (simp add: convert_audio_to_midi_def os_path_exists_def os_stat_def node_of_def
        start_dir_def demo_world_def interrupted_predict_def except_Exception_def)

text \<open>
  Claim C6, amended. When the path exists, an exception deriving from \<^verbatim>\<open>Exception\<close>
  that the inference function raises is raised again as \<^verbatim>\<open>RuntimeError\<close> with the
  message \<^verbatim>\<open>"Error during audio-to-MIDI conversion: "\<close> followed by the text of the
  original exception. An exception that does not derive from \<^verbatim>\<open>Exception\<close> leaves the
  method unchanged. Every exception deriving from \<^verbatim>\<open>Exception\<close> that leaves the
  inference stage is a \<^verbatim>\<open>RuntimeError\<close>.
\<close>

theorem inference_failure_wrapped:
  assumes "os_path_exists w audio_path"
  shows "(\<forall>e. predict w audio_path onset_threshold frame_threshold = Inl e
              \<and> is_Exception (exc_cls e) \<longrightarrow>
            fst (convert_audio_to_midi predict w audio_path onset_threshold frame_threshold)
              = Inl (PyExc RuntimeError
                      (''Error during audio-to-MIDI conversion: '' @ exc_str e)))
       \<and> (\<forall>e. predict w audio_path onset_threshold frame_threshold = Inl e
              \<and> \<not> is_Exception (exc_cls e) \<longrightarrow>
            fst (convert_audio_to_midi predict w audio_path onset_threshold frame_threshold)
              = Inl e)
       \<and> (\<forall>x. fst (convert_audio_to_midi predict w audio_path onset_threshold frame_threshold)
                 = Inl x \<and> is_Exception (exc_cls x) \<longrightarrow> exc_cls x = RuntimeError)"
proof (intro conjI allI impI)
  fix e
  assume "predict w audio_path onset_threshold frame_threshold = Inl e
            \<and> is_Exception (exc_cls e)"
  with assms
  show "fst (convert_audio_to_midi predict w audio_path onset_threshold frame_threshold)
          = Inl (PyExc RuntimeError (''Error during audio-to-MIDI conversion: '' @ exc_str e))"
    by (simp add: convert_audio_to_midi_def Let_def except_Exception_wraps conversion_prefix_def)
next
  fix e
  assume "predict w audio_path onset_threshold frame_threshold = Inl e
            \<and> \<not> is_Exception (exc_cls e)"
  with assms
  show "fst (convert_audio_to_midi predict w audio_path onset_threshold frame_threshold) = Inl e"
    by (simp add: convert_audio_to_midi_def Let_def except_Exception_passes)
next
  fix x
  assume res: "fst (convert_audio_to_midi predict w audio_path onset_threshold frame_threshold)
                 = Inl x \<and> is_Exception (exc_cls x)"
  with assms obtain e where "x = except_Exception conversion_prefix e"
    by (auto simp: convert_audio_to_midi_def Let_def split: sum.splits prod.splits)
  with res show "exc_cls x = RuntimeError"
    by (simp add: except_Exception_class)
qed

theorem inference_failure_wrapped_witness:
  "os_path_exists demo_world ''/music''
   \<and> demo_predict demo_world ''/music'' (1 / 2) (3 / 10)
       = Inl (PyExc IsADirectoryError (''[Errno 21] Is a directory: '' @ quoted ''/music''))
   \<and> fst (convert_audio_to_midi demo_predict demo_world ''/music'' (1 / 2) (3 / 10))
       = Inl (PyExc RuntimeError
               (''Error during audio-to-MIDI conversion: [Errno 21] Is a directory: ''
                @ quoted ''/music''))
   \<and> fst (convert_audio_to_midi interrupted_predict demo_world ''/music'' (1 / 2) (3 / 10))
       = Inl (PyExc KeyboardInterrupt [])"
proof -
  have ex: "os_path_exists demo_world ''/music''"
    by (simp add: os_path_exists_def os_stat_def node_of_def start_dir_def demo_world_def)
  have pr: "demo_predict demo_world ''/music'' (1 / 2) (3 / 10)
              = Inl (PyExc IsADirectoryError (''[Errno 21] Is a directory: '' @ quoted ''/music''))"
    by (simp add: demo_predict_def os_stat_def node_of_def start_dir_def demo_world_def
          os_error_def)
  have ip: "interrupted_predict demo_world ''/music'' (1 / 2) (3 / 10)
              = Inl (PyExc KeyboardInterrupt [])"
    by (simp add: interrupted_predict_def)
  note t1 = inference_failure_wrapped
         [where predict = demo_predict and w = demo_world and audio_path = "''/music''"
            and onset_threshold = "1 / 2" and frame_threshold = "3 / 10", OF ex]
  note t2 = inference_failure_wrapped
         [where predict = interrupted_predict and w = demo_world and audio_path = "''/music''"
            and onset_threshold = "1 / 2" and frame_threshold = "3 / 10", OF ex]
  have r1: "fst (convert_audio_to_midi demo_predict demo_world ''/music'' (1 / 2) (3 / 10))
       = Inl (PyExc RuntimeError
               (''Error during audio-to-MIDI conversion: '' @
                exc_str (PyExc IsADirectoryError
                          (''[Errno 21] Is a directory: '' @ quoted ''/music''))))"
    by (rule t1 [THEN conjunct1, rule_format]) (simp add: pr)
  have r2: "fst (convert_audio_to_midi interrupted_predict demo_world ''/music'' (1 / 2) (3 / 10))
       = Inl (PyExc KeyboardInterrupt [])"
    by (rule t2 [THEN conjunct2, THEN conjunct1, rule_format]) (simp add: ip)
  from r1 r2 ex pr show ?thesis
    by simp
qed

text \<open>
  Claim C10. For a path that is a directory, the check of \<^verbatim>\<open>os.path.exists\<close> passes:
  the method does not raise the validation error, it calls the inference function, and
  a failure of that call comes out as the \<^verbatim>\<open>RuntimeError\<close> of the inference stage.
\<close>

theorem directory_path_passes_check:
  assumes "os_stat w audio_path = Inr Dir"
  shows "os_path_exists w audio_path
       \<and> (\<forall>msg. fst (convert_audio_to_midi predict w audio_path onset_threshold frame_threshold)
                   \<noteq> Inl (PyExc ValueError msg))
       \<and> predict_calls
           (snd (convert_audio_to_midi predict w audio_path onset_threshold frame_threshold))
           = predict_calls w @ [(audio_path, onset_threshold, frame_threshold)]
       \<and> (\<forall>e. predict w audio_path onset_threshold frame_threshold = Inl e
                \<and> is_Exception (exc_cls e) \<longrightarrow>
              fst (convert_audio_to_midi predict w audio_path onset_threshold frame_threshold)
                = Inl (PyExc RuntimeError
                        (''Error during audio-to-MIDI conversion: '' @ exc_str e)))"
proof -
  from assms have ex: "os_path_exists w audio_path"
    by (simp add: os_path_exists_def)
  have nv: "fst (convert_audio_to_midi predict w audio_path onset_threshold frame_threshold)
              \<noteq> Inl (PyExc ValueError msg)" for msg
  proof
    assume a: "fst (convert_audio_to_midi predict w audio_path onset_threshold frame_threshold)
                 = Inl (PyExc ValueError msg)"
    with ex obtain e where "except_Exception conversion_prefix e = PyExc ValueError msg"
      by (auto simp: convert_audio_to_midi_def Let_def split: sum.splits prod.splits)
    then have "exc_cls (except_Exception conversion_prefix e) = ValueError"
      by simp
    then show False
      by (simp add: except_Exception_not_ValueError)
  qed
  have lg: "predict_calls
              (snd (convert_audio_to_midi predict w audio_path onset_threshold frame_threshold))
              = predict_calls w @ [(audio_path, onset_threshold, frame_threshold)]"
    using ex by (simp add: convert_audio_to_midi_def Let_def split: sum.splits prod.splits)
  have wr: "fst (convert_audio_to_midi predict w audio_path onset_threshold frame_threshold)
              = Inl (PyExc RuntimeError (''Error during audio-to-MIDI conversion: '' @ exc_str e))"
    if "predict w audio_path onset_threshold frame_threshold = Inl e \<and> is_Exception (exc_cls e)"
    for e
    using that ex
    by (simp add: convert_audio_to_midi_def Let_def except_Exception_wraps conversion_prefix_def)
  from ex nv lg wr show ?thesis by blast
qed

theorem directory_path_passes_check_witness:
  "os_stat demo_world ''/music'' = Inr Dir
   \<and> os_path_exists demo_world ''/music''
   \<and> predict_calls
       (snd (convert_audio_to_midi demo_predict demo_world ''/music'' (1 / 2) (3 / 10)))
       = [(''/music'', 1 / 2, 3 / 10)]
   \<and> fst (convert_audio_to_midi demo_predict demo_world ''/music'' (1 / 2) (3 / 10))
       = Inl (PyExc RuntimeError
               (''Error during audio-to-MIDI conversion: [Errno 21] Is a directory: ''
                @ quoted ''/music''))"
proof -
  have d: "os_stat demo_world ''/music'' = Inr Dir"
    by (simp add: os_stat_def node_of_def start_dir_def demo_world_def)
  have pr: "demo_predict demo_world ''/music'' (1 / 2) (3 / 10)
              = Inl (PyExc IsADirectoryError (''[Errno 21] Is a directory: '' @ quoted ''/music''))"
    by (simp add: demo_predict_def os_stat_def node_of_def start_dir_def demo_world_def
          os_error_def)
  from directory_path_passes_check [OF d, of demo_predict "1 / 2" "3 / 10"] pr d
  show ?thesis
    by (simp add: demo_world_def)
qed

section \<open>The writer: assembling the track\<close>

lemma add_entry_skip:
  "length entry \<noteq> 4 \<Longrightarrow> add_entry midi entry = Inr midi"
  by (simp add: add_entry_def)

lemma add_notes_append:
  "add_notes midi (xs @ ys)
     = (case add_notes midi xs of Inl e \<Rightarrow> Inl e | Inr midi' \<Rightarrow> add_notes midi' ys)"
  by (induction xs arbitrary: midi) (auto split: sum.splits)

lemma add_entry_four:
  assumes "length entry = 4" and "add_entry midi entry = Inr midi'"
  shows "midi' = addNote midi 0 0 (max 0 (min 127 (projr (py_int (entry ! 0))))) (entry ! 1)
                   (projr (py_sub (entry ! 2) (entry ! 1)))
                   (max 0 (min 127 (projr (py_int (entry ! 3)))))"
  using assms by (auto simp: add_entry_def Let_def split: sum.splits)

lemma add_notes_eventlist:
  assumes "add_notes midi midi_data = Inr midi'"
  shows "eventlist midi' = eventlist midi @
           map (\<lambda>entry. NoteEvent 0 0 (max 0 (min 127 (projr (py_int (entry ! 0))))) (entry ! 1)
                          (projr (py_sub (entry ! 2) (entry ! 1)))
                          (max 0 (min 127 (projr (py_int (entry ! 3))))))
               (filter (\<lambda>entry. length entry = 4) midi_data)"
  using assms
proof (induction midi_data arbitrary: midi)
  case Nil
  then show ?case by simp
next
  case (Cons entry rest)
  from Cons.prems obtain m1 where e: "add_entry midi entry = Inr m1"
    and r: "add_notes m1 rest = Inr midi'"
    by (auto split: sum.splits)
  show ?case
  proof (cases "length entry = 4")
    case True
    from add_entry_four [OF True e] have "eventlist m1 = eventlist midi @
        [NoteEvent 0 0 (max 0 (min 127 (projr (py_int (entry ! 0))))) (entry ! 1)
           (projr (py_sub (entry ! 2) (entry ! 1)))
           (max 0 (min 127 (projr (py_int (entry ! 3)))))]"
      by (simp add: addNote_def)
    with Cons.IH [OF r] True show ?thesis by simp
  next
    case False
    with e have "m1 = midi" by (simp add: add_entry_def)
    with Cons.IH [OF r] False show ?thesis by simp
  qed
qed

lemma filter_is_note_map:
  "filter is_note (map (\<lambda>entry. NoteEvent (a entry) (b entry) (c entry) (d entry) (e entry)
                                   (g entry)) xs)
     = map (\<lambda>entry. NoteEvent (a entry) (b entry) (c entry) (d entry) (e entry) (g entry)) xs"
  by (induction xs) auto

lemma new_track_events:
  "new_track tempo = Inr midi \<Longrightarrow>
   eventlist midi = [TrackNameEvent 0 0 ''Track 1'', TempoEvent 0 0 tempo]"
  by (auto simp: new_track_def addTempo_def addTrackName_def MIDIFile_def split: if_splits)

lemma new_track_ok:
  "tempo \<noteq> 0 \<Longrightarrow>
   new_track tempo = Inr \<lparr>numTracks = 1,
     eventlist = [TrackNameEvent 0 0 ''Track 1'', TempoEvent 0 0 tempo]\<rparr>"
  by (simp add: new_track_def addTempo_def addTrackName_def MIDIFile_def)

text \<open>
  Claim C4. When the track of \<^verbatim>\<open>save_midi\<close> is assembled, its notes are those of the
  entries with four fields, in order, each with pitch \<^verbatim>\<open>max(0, min(127, int(pitch)))\<close>
  and volume \<^verbatim>\<open>max(0, min(127, int(velocity)))\<close>; so the pitch and the volume of every
  note of the track lie between 0 and 127, and a pitch of 200 is written as 127.
\<close>

theorem notes_clamped:
  assumes "build_track tempo midi_data = Inr midi"
  shows "filter is_note (eventlist midi)
           = map (\<lambda>entry. NoteEvent 0 0 (max 0 (min 127 (projr (py_int (entry ! 0))))) (entry ! 1)
                            (projr (py_sub (entry ! 2) (entry ! 1)))
                            (max 0 (min 127 (projr (py_int (entry ! 3))))))
                 (filter (\<lambda>entry. length entry = 4) midi_data)
       \<and> (\<forall>track channel p t d v. NoteEvent track channel p t d v \<in> set (eventlist midi)
             \<longrightarrow> 0 \<le> p \<and> p \<le> 127 \<and> 0 \<le> v \<and> v \<le> 127)"
proof -
  from assms obtain track where nt: "new_track tempo = Inr track"
    and an: "add_notes track midi_data = Inr midi"
    by (auto simp: build_track_def split: sum.splits)
  note ev = add_notes_eventlist [OF an] new_track_events [OF nt]
  have a: "filter is_note (eventlist midi)
           = map (\<lambda>entry. NoteEvent 0 0 (max 0 (min 127 (projr (py_int (entry ! 0))))) (entry ! 1)
                            (projr (py_sub (entry ! 2) (entry ! 1)))
                            (max 0 (min 127 (projr (py_int (entry ! 3))))))
                 (filter (\<lambda>entry. length entry = 4) midi_data)"
    by (simp add: ev filter_is_note_map)
  have b: "0 \<le> p \<and> p \<le> 127 \<and> 0 \<le> v \<and> v \<le> 127"
    if "NoteEvent track channel p t d v \<in> set (eventlist midi)" for track channel p t d v
    using that by (auto simp: ev)
  from a b show ?thesis by blast
qed

theorem notes_clamped_witness:
  "build_track 120 [[PInt 200, PFloat 0, PFloat 1, PInt (- 5)]]
     = Inr \<lparr>numTracks = 1,
            eventlist = [TrackNameEvent 0 0 ''Track 1'', TempoEvent 0 0 120,
                         NoteEvent 0 0 127 (PFloat 0) (PFloat 1) 0]\<rparr>
   \<and> filter is_note [TrackNameEvent 0 0 ''Track 1'', TempoEvent 0 0 120,
                       NoteEvent 0 0 127 (PFloat 0) (PFloat 1) 0]
       = [NoteEvent 0 0 127 (PFloat 0) (PFloat 1) 0]"
proof -
  have h: "build_track 120 [[PInt 200, PFloat 0, PFloat 1, PInt (- 5)]]
     = Inr \<lparr>numTracks = 1,
            eventlist = [TrackNameEvent 0 0 ''Track 1'', TempoEvent 0 0 120,
                         NoteEvent 0 0 127 (PFloat 0) (PFloat 1) 0]\<rparr>"
    by (simp add: build_track_def new_track_ok add_entry_def addNote_def)
  from notes_clamped [OF h] h show ?thesis
    by simp
qed

text \<open>
  Claim C5. An entry that does not have four fields is skipped: the loop body returns
  the track as it was and raises nothing, the loop gives the same result as on the list
  without the entry, and so does \<^verbatim>\<open>save_midi\<close>; when the entry is the only one, the
  track that is written has the name and the tempo and no note.
\<close>

theorem malformed_entry_skipped:
  assumes "length bad \<noteq> 4"
  shows "add_entry midi bad = Inr midi
       \<and> add_notes midi (xs @ bad # ys) = add_notes midi (xs @ ys)
       \<and> save_midi writeFile w (xs @ bad # ys) file_name output_path tempo
           = (if xs @ ys = [] then
                (case new_track tempo of
                   Inl e \<Rightarrow> (Inl e, w)
                 | Inr track \<Rightarrow> persist writeFile w track file_name output_path)
              else save_midi writeFile w (xs @ ys) file_name output_path tempo)"
proof -
  have a: "add_entry midi bad = Inr midi" for midi
    using assms by (rule add_entry_skip)
  have b: "add_notes midi (xs @ bad # ys) = add_notes midi (xs @ ys)" for midi
    by (simp add: add_notes_append a split: sum.splits)
  have c: "save_midi writeFile w (xs @ bad # ys) file_name output_path tempo
           = (if xs @ ys = [] then
                (case new_track tempo of
                   Inl e \<Rightarrow> (Inl e, w)
                 | Inr track \<Rightarrow> persist writeFile w track file_name output_path)
              else save_midi writeFile w (xs @ ys) file_name output_path tempo)"
  proof (cases "xs @ ys = []")
    case True
    then show ?thesis by (simp add: save_midi_def build_track_def a split: sum.splits)
  next
    case False
    then show ?thesis by (auto simp: save_midi_def build_track_def b split: sum.splits)
  qed
  from a b c show ?thesis by blast
qed

theorem malformed_entry_skipped_witness:
  "length [PInt 60, PFloat 0, PFloat 1] \<noteq> 4
   \<and> fst (save_midi demo_writeFile demo_world [[PInt 60, PFloat 0, PFloat 1]]
            ''t.mid'' ''/out/midi'' 120) = Inr ()
   \<and> fs (snd (save_midi demo_writeFile demo_world [[PInt 60, PFloat 0, PFloat 1]]
                ''t.mid'' ''/out/midi'' 120)) [''out'', ''midi'', ''t.mid'']
       = Some (File (fst (demo_writeFile (projr (new_track 120)))))
   \<and> filter is_note (eventlist (projr (new_track 120))) = []"
proof -
  have l: "length [PInt 60, PFloat 0, PFloat 1] \<noteq> 4" by simp
  have p: "persist demo_writeFile demo_world (projr (new_track 120)) ''t.mid'' ''/out/midi''
             = (Inr (), demo_world\<lparr>fs := (fs demo_world)
                   ([''out''] \<mapsto> Dir, [''out'', ''midi''] \<mapsto> Dir,
                    [''out'', ''midi'', ''t.mid''] \<mapsto> File (fst (demo_writeFile (projr (new_track 120)))))\<rparr>)"
    by (simp add: persist_def os_makedirs_def start_dir_def demo_world_def os_path_join_def
          open_wb_def path_body_def node_of_def write_close_def demo_writeFile_def Let_def
          new_track_ok)
  from malformed_entry_skipped [OF l, of "projr (new_track 120)" "[]" "[]" demo_writeFile
      demo_world "''t.mid''" "''/out/midi''" 120] p l
  show ?thesis
    by (simp add: new_track_ok)
qed

section \<open>The writer on the converter's result\<close>

lemma add_notes_note_tuples:
  "\<forall>x \<in> set xs. is_note_tuple x \<Longrightarrow>
   \<exists>midi'. add_notes midi xs = Inr midi'
      \<and> length (filter is_note (eventlist midi')) = length (filter is_note (eventlist midi)) + length xs"
proof (induction xs arbitrary: midi)
  case Nil
  then show ?case by simp
next
  case (Cons x xs)
  from Cons.prems have "is_note_tuple x" by simp
  then obtain p s t v where x: "x = [PInt p, PFloat s, PFloat t, PInt v]"
    using is_note_tuple_cases by blast
  let ?m = "addNote midi 0 0 (max 0 (min 127 p)) (PFloat s) (PFloat (t - s)) (max 0 (min 127 v))"
  have e: "add_entry midi x = Inr ?m"
    by (simp add: add_entry_def x)
  from Cons.prems have "\<forall>y \<in> set xs. is_note_tuple y" by simp
  from Cons.IH [OF this, of ?m] obtain midi' where
    "add_notes ?m xs = Inr midi'"
    "length (filter is_note (eventlist midi')) = length (filter is_note (eventlist ?m)) + length xs"
    by blast
  with e show ?case
    by (simp add: addNote_def)
qed

text \<open>
  Claim C9. Every element of the list that \<^verbatim>\<open>convert_audio_to_midi\<close> returns is a tuple
  of four fields: an integer pitch, a float start, a float end and an integer velocity.
  On that list the loop of the writer raises nothing and adds one note for each element:
  the branch that skips an entry is never taken.
\<close>

theorem converter_output_well_formed:
  assumes "convert_audio_to_midi predict w audio_path onset_threshold frame_threshold
             = (Inr out, w')"
  shows "(\<forall>entry \<in> set out.
            length entry = 4 \<and> (\<exists>p s t v. entry = [PInt p, PFloat s, PFloat t, PInt v]))
       \<and> (\<exists>midi'. add_notes midi out = Inr midi'
            \<and> length (filter is_note (eventlist midi'))
                = length (filter is_note (eventlist midi)) + length out)"
proof -
  from convert_result [OF assms] obtain flat where
    sh: "\<forall>x \<in> set flat. is_note_tuple x" and out: "out = sort_key (\<lambda>x. num (x ! 1)) flat"
    by blast
  then have sho: "\<forall>x \<in> set out. is_note_tuple x" by simp
  have a: "\<forall>entry \<in> set out.
             length entry = 4 \<and> (\<exists>p s t v. entry = [PInt p, PFloat s, PFloat t, PInt v])"
  proof
    fix entry assume "entry \<in> set out"
    with sho obtain p s t v where "entry = [PInt p, PFloat s, PFloat t, PInt v]"
      using is_note_tuple_cases by blast
    then show "length entry = 4 \<and> (\<exists>p s t v. entry = [PInt p, PFloat s, PFloat t, PInt v])"
      by simp
  qed
  from add_notes_note_tuples [OF sho, of midi] a show ?thesis by blast
qed

theorem converter_output_well_formed_witness:
  "fst (convert_audio_to_midi demo_predict demo_world ''/music/a.wav'' (1 / 2) (3 / 10))
     = Inr [[PInt 60, PFloat (1 / 2), PFloat 1, PInt 100],
            [PInt 67, PFloat (1 / 2), PFloat 3, PInt 80],
            [PInt 64, PFloat 1, PFloat 2, PInt 90]]
   \<and> length (filter is_note (eventlist (projr (add_notes (projr (new_track 120))
        [[PInt 60, PFloat (1 / 2), PFloat 1, PInt 100],
         [PInt 67, PFloat (1 / 2), PFloat 3, PInt 80],
         [PInt 64, PFloat 1, PFloat 2, PInt 90]])))) = 3"
proof -
  let ?out = "[[PInt 60, PFloat (1 / 2), PFloat 1, PInt 100],
               [PInt 67, PFloat (1 / 2), PFloat 3, PInt 80],
               [PInt 64, PFloat 1, PFloat 2, PInt 90]]"
  from converter_output_well_formed [OF demo_convert, of "projr (new_track 120)"]
  have "\<exists>midi'. add_notes (projr (new_track 120)) ?out = Inr midi'
          \<and> length (filter is_note (eventlist midi'))
              = length (filter is_note (eventlist (projr (new_track 120)))) + length ?out"
    by (rule conjunct2)
  then have "length (filter is_note (eventlist (projr (add_notes (projr (new_track 120)) ?out)))) = 3"
    by (auto simp: new_track_ok)
  with demo_convert show ?thesis
    by simp
qed

section \<open>The writer: saving the file\<close>

lemma open_wb_is_Exception:
  "open_wb w name = Inl e \<Longrightarrow> is_Exception (exc_cls e)"
proof -
  have a: "is_Exception (exc_cls (os_error c n))"
    if "c = FileNotFoundError \<or> c = NotADirectoryError \<or> c = IsADirectoryError" for c n
    using that by (auto simp: os_error_def)
  have b: "c = FileNotFoundError \<or> c = NotADirectoryError" if "walk f cur cs = Inl c" for f cur cs c
    using that by (induction cs arbitrary: cur) (auto split: option.splits node.splits if_splits)
  assume "open_wb w name = Inl e"
  then show ?thesis
    by (auto simp: open_wb_def Let_def a dest!: b
          split: if_splits sum.splits option.splits node.splits)
qed

lemma persist_makedirs_error:
  "os_makedirs w output_path = (Some e, w1) \<Longrightarrow>
   persist writeFile w midi file_name output_path = (Inl e, w1)"
  by (simp add: persist_def)

lemma persist_open_error:
  "os_makedirs w output_path = (None, w1) \<Longrightarrow>
   open_wb w1 (os_path_join output_path file_name) = Inl e \<Longrightarrow>
   persist writeFile w midi file_name output_path
     = (Inl (PyExc RuntimeError (''Error saving MIDI file: '' @ exc_str e)), w1)"
  by (simp add: persist_def Let_def saving_prefix_def except_Exception_wraps
        open_wb_is_Exception)

lemma persist_write_error:
  "os_makedirs w output_path = (None, w1) \<Longrightarrow>
   open_wb w1 (os_path_join output_path file_name) = Inr (f, w2) \<Longrightarrow>
   writeFile midi = (bs, Some e) \<Longrightarrow> is_Exception (exc_cls e) \<Longrightarrow>
   persist writeFile w midi file_name output_path
     = (Inl (PyExc RuntimeError (''Error saving MIDI file: '' @ exc_str e)), write_close w2 f bs)"
  by (simp add: persist_def Let_def saving_prefix_def except_Exception_wraps)

text \<open>
  Claim C7 says that every exception of the MIDI library or of file input and output in
  \<^verbatim>\<open>save_midi\<close>, directory creation and note assembly included, is raised again as a
  \<^verbatim>\<open>RuntimeError\<close>. The \<^verbatim>\<open>try\<close> block holds only the opening and the writing of the
  file. When the output directory is an existing regular file, \<^verbatim>\<open>os.makedirs\<close> raises
  \<^verbatim>\<open>FileExistsError\<close>, and this is the exception that leaves the method.
\<close>

theorem makedirs_error_escapes_counterexample:
  "fst (save_midi demo_writeFile demo_world [[PInt 60, PFloat 0, PFloat 1, PInt 100]]
          ''t.mid'' ''/out.txt'' 120)
     = Inl (PyExc FileExistsError (''[Errno 17] File exists: '' @ quoted ''/out.txt''))
   \<and> fst (save_midi demo_writeFile demo_world [[PInt 60, PFloat 0, PFloat 1, PInt 100]]
          ''t.mid'' ''/out.txt'' 120)
     \<noteq> Inl (PyExc RuntimeError
              (''Error saving MIDI file: [Errno 17] File exists: '' @ quoted ''/out.txt''))"
  by (simp add: save_midi_def build_track_def new_track_ok add_entry_def addNote_def
        persist_def os_makedirs_def start_dir_def demo_world_def mkdir_error_def os_error_def)

text \<open>
  Claim C7, amended. In \<^verbatim>\<open>save_midi\<close> on a list that is not empty, an exception raised
  by opening the destination file, and an exception deriving from \<^verbatim>\<open>Exception\<close> raised
  by writing it, is raised again as \<^verbatim>\<open>RuntimeError\<close> with the message
  \<^verbatim>\<open>"Error saving MIDI file: "\<close> followed by the original text. An exception raised by
  the assembly of the track or by the creation of the directory is outside the
  \<^verbatim>\<open>try\<close> block and leaves the method as it was raised.
\<close>

theorem saving_failure_wrapped:
  assumes "midi_data \<noteq> []"
  shows "(\<forall>e. build_track tempo midi_data = Inl e \<longrightarrow>
            save_midi writeFile w midi_data file_name output_path tempo = (Inl e, w))
       \<and> (\<forall>midi e w1. build_track tempo midi_data = Inr midi
              \<and> os_makedirs w output_path = (Some e, w1) \<longrightarrow>
            save_midi writeFile w midi_data file_name output_path tempo = (Inl e, w1))
       \<and> (\<forall>midi w1 e. build_track tempo midi_data = Inr midi
              \<and> os_makedirs w output_path = (None, w1)
              \<and> open_wb w1 (os_path_join output_path file_name) = Inl e \<longrightarrow>
            fst (save_midi writeFile w midi_data file_name output_path tempo)
              = Inl (PyExc RuntimeError (''Error saving MIDI file: '' @ exc_str e)))
       \<and> (\<forall>midi w1 f w2 bs e. build_track tempo midi_data = Inr midi
              \<and> os_makedirs w output_path = (None, w1)
              \<and> open_wb w1 (os_path_join output_path file_name) = Inr (f, w2)
              \<and> writeFile midi = (bs, Some e) \<and> is_Exception (exc_cls e) \<longrightarrow>
            fst (save_midi writeFile w midi_data file_name output_path tempo)
              = Inl (PyExc RuntimeError (''Error saving MIDI file: '' @ exc_str e)))"
  using assms
  by (auto simp: save_midi_def persist_makedirs_error persist_open_error persist_write_error)

theorem saving_failure_wrapped_witness:
  "fst (save_midi demo_writeFile demo_world [[PInt 60, PFloat 0, PFloat 1, PInt 100]]
          ''a.wav/t.mid'' ''/music'' 120)
     = Inl (PyExc RuntimeError
             (''Error saving MIDI file: [Errno 20] Not a directory: ''
              @ quoted ''/music/a.wav/t.mid''))
   \<and> fst (save_midi failing_writeFile demo_world [[PInt 60, PFloat 0, PFloat 1, PInt 100]]
          ''t.mid'' ''/music'' 120)
     = Inl (PyExc RuntimeError ''Error saving MIDI file: bad delta time'')
   \<and> fst (save_midi demo_writeFile demo_world [[PInt 60, PNone, PFloat 1, PInt 100]]
          ''t.mid'' ''/music'' 120)
     = Inl (PyExc TypeError
             (''unsupported operand type(s) for -: '' @ quoted ''float''
              @ '' and '' @ quoted ''NoneType''))
   \<and> fst (save_midi demo_writeFile demo_world [[PInt 60, PFloat 0, PFloat 1, PInt 100]]
          ''t.mid'' ''/music'' 0)
     = Inl (PyExc ZeroDivisionError ''division by zero'')"
proof -
  let ?data = "[[PInt 60, PFloat 0, PFloat 1, PInt 100]]"
  let ?midi = "\<lparr>numTracks = 1,
                eventlist = [TrackNameEvent 0 0 ''Track 1'', TempoEvent 0 0 120,
                             NoteEvent 0 0 60 (PFloat 0) (PFloat 1) 100]\<rparr>"
  have ne: "?data \<noteq> []" by simp
  have an: "build_track 120 ?data = Inr ?midi"
    by (simp add: build_track_def new_track_ok add_entry_def addNote_def)
  have mk: "os_makedirs demo_world ''/music'' = (None, demo_world)"
    by (simp add: os_makedirs_def start_dir_def demo_world_def)
  have op1: "open_wb demo_world (os_path_join ''/music'' ''a.wav/t.mid'')
               = Inl (PyExc NotADirectoryError
                       (''[Errno 20] Not a directory: '' @ quoted ''/music/a.wav/t.mid''))"
    by (simp add: open_wb_def path_body_def os_path_join_def start_dir_def node_of_def
          demo_world_def os_error_def Let_def)
  have op2: "open_wb demo_world (os_path_join ''/music'' ''t.mid'')
               = Inr ([''music'', ''t.mid''],
                      demo_world\<lparr>fs := (fs demo_world)([''music'', ''t.mid''] \<mapsto> File [])\<rparr>)"
    by (simp add: open_wb_def path_body_def os_path_join_def start_dir_def node_of_def
          demo_world_def Let_def)
  have wr: "failing_writeFile ?midi
              = ([77, 84], Some (PyExc (OtherError ''struct.error'') ''bad delta time''))"
    by (simp add: failing_writeFile_def)
  have ie: "is_Exception (exc_cls (PyExc (OtherError ''struct.error'') ''bad delta time''))"
    by simp
  note t1 = saving_failure_wrapped [OF ne, of 120 demo_writeFile demo_world "''a.wav/t.mid''" "''/music''"]
  note t2 = saving_failure_wrapped [OF ne, of 120 failing_writeFile demo_world "''t.mid''" "''/music''"]
  note t4 = saving_failure_wrapped [OF ne, of 0 demo_writeFile demo_world "''t.mid''" "''/music''"]
  have ne3: "[[PInt 60, PNone, PFloat 1, PInt 100]] \<noteq> []" by simp
  have an3: "build_track 120 [[PInt 60, PNone, PFloat 1, PInt 100]]
               = Inl (PyExc TypeError
                       (''unsupported operand type(s) for -: '' @ quoted ''float''
                        @ '' and '' @ quoted ''NoneType''))"
    by (simp add: build_track_def new_track_ok add_entry_def)
  have an4: "build_track 0 ?data = Inl (PyExc ZeroDivisionError ''division by zero'')"
    by (simp add: build_track_def new_track_def addTempo_def)
  note t3 = saving_failure_wrapped [OF ne3, of 120 demo_writeFile demo_world "''t.mid''" "''/music''"]
  have r1: "fst (save_midi demo_writeFile demo_world ?data ''a.wav/t.mid'' ''/music'' 120)
     = Inl (PyExc RuntimeError
             (''Error saving MIDI file: '' @ exc_str (PyExc NotADirectoryError
                       (''[Errno 20] Not a directory: '' @ quoted ''/music/a.wav/t.mid''))))"
    using t1 an mk op1 by blast
  have r2: "fst (save_midi failing_writeFile demo_world ?data ''t.mid'' ''/music'' 120)
     = Inl (PyExc RuntimeError (''Error saving MIDI file: '' @
              exc_str (PyExc (OtherError ''struct.error'') ''bad delta time'')))"
    using t2 an mk op2 wr ie by blast
  have r3: "save_midi demo_writeFile demo_world [[PInt 60, PNone, PFloat 1, PInt 100]]
              ''t.mid'' ''/music'' 120
            = (Inl (PyExc TypeError
                       (''unsupported operand type(s) for -: '' @ quoted ''float''
                        @ '' and '' @ quoted ''NoneType'')), demo_world)"
    using t3 an3 by blast
  have r4: "save_midi demo_writeFile demo_world ?data ''t.mid'' ''/music'' 0
            = (Inl (PyExc ZeroDivisionError ''division by zero''), demo_world)"
    using t4 an4 by blast
  from r1 r2 r3 r4 show ?thesis
    by simp
qed

text \<open>
  Claim C8. When a call of \<^verbatim>\<open>save_midi\<close> succeeds, a second call with the same
  arguments succeeds too and leaves the world as the first call left it, so the file is
  the same byte for byte. Creating the directory again raises nothing, and the file
  holds exactly what the serialisation wrote: opening it again empties it, so it is
  overwritten, not extended.
\<close>

theorem save_midi_idempotent:
  assumes "fst (save_midi writeFile w midi_data file_name output_path tempo) = Inr ()"
  shows "save_midi writeFile (snd (save_midi writeFile w midi_data file_name output_path tempo))
           midi_data file_name output_path tempo
           = (Inr (), snd (save_midi writeFile w midi_data file_name output_path tempo))
       \<and> os_makedirs (snd (save_midi writeFile w midi_data file_name output_path tempo))
           output_path
           = (None, snd (save_midi writeFile w midi_data file_name output_path tempo))
       \<and> (\<exists>midi. build_track tempo midi_data = Inr midi
            \<and> os_stat (snd (save_midi writeFile w midi_data file_name output_path tempo))
                (os_path_join output_path file_name)
                = Inr (File (fst (writeFile midi))))"
proof -
  let ?w' = "snd (save_midi writeFile w midi_data file_name output_path tempo)"
  from assms have ne: "midi_data \<noteq> []"
    by (auto simp: save_midi_def)
  with assms obtain midi where an: "build_track tempo midi_data = Inr midi"
    by (auto simp: save_midi_def split: sum.splits)
  with ne have sm: "save_midi writeFile w0 midi_data file_name output_path tempo
                     = persist writeFile w0 midi file_name output_path" for w0
    by (simp add: save_midi_def)
  from assms sm have p: "persist writeFile w midi file_name output_path = (Inr (), ?w')"
    by (metis prod.collapse)
  from persist_result [OF p] sm an show ?thesis
    by auto
qed

theorem save_midi_idempotent_witness:
  "fs demo_world [''music'', ''a.wav''] = Some (File [82, 73])
   \<and> fst (save_midi demo_writeFile demo_world [[PInt 60, PFloat 0, PFloat 1, PInt 100]]
          ''a.wav'' ''/music'' 120) = Inr ()
   \<and> fs (snd (save_midi demo_writeFile demo_world [[PInt 60, PFloat 0, PFloat 1, PInt 100]]
               ''a.wav'' ''/music'' 120)) [''music'', ''a.wav'']
       = Some (File [3, 120, 60])
   \<and> save_midi demo_writeFile
        (snd (save_midi demo_writeFile demo_world [[PInt 60, PFloat 0, PFloat 1, PInt 100]]
               ''a.wav'' ''/music'' 120))
        [[PInt 60, PFloat 0, PFloat 1, PInt 100]] ''a.wav'' ''/music'' 120
       = (Inr (), snd (save_midi demo_writeFile demo_world
                         [[PInt 60, PFloat 0, PFloat 1, PInt 100]] ''a.wav'' ''/music'' 120))"
proof -
  have h: "save_midi demo_writeFile demo_world [[PInt 60, PFloat 0, PFloat 1, PInt 100]]
             ''a.wav'' ''/music'' 120
           = (Inr (), demo_world\<lparr>fs := (fs demo_world)
                   ([''music'', ''a.wav''] \<mapsto> File [3, 120, 60])\<rparr>)"
    by (simp add: save_midi_def build_track_def new_track_ok add_entry_def addNote_def
          persist_def os_makedirs_def start_dir_def demo_world_def os_path_join_def open_wb_def
          path_body_def node_of_def write_close_def demo_writeFile_def Let_def)
  then have f: "fst (save_midi demo_writeFile demo_world [[PInt 60, PFloat 0, PFloat 1, PInt 100]]
             ''a.wav'' ''/music'' 120) = Inr ()"
    by simp
  from save_midi_idempotent [OF f] f h show ?thesis
    by (simp add: demo_world_def)
qed

end
